theory Spec2Isabelle
  imports Complex_Main "HOL-Library.Multiset"
begin

section \<open>The knowledge graph, as the routine builder sees it\<close>

text \<open>
  \<^verbatim>\<open>routines/builder.py\<close> imports \<^verbatim>\<open>IngredientKnowledgeGraph\<close>, \<^verbatim>\<open>Ingredient\<close>,
  \<^verbatim>\<open>TimeOfDay\<close>, \<^verbatim>\<open>SkinProfile\<close> and \<^verbatim>\<open>SkinConcern\<close> from
  \<^verbatim>\<open>knowledge.ingredients\<close>. The builder reads a handful of attributes of these
  classes and calls four methods of the graph. The types below carry the attributes
  the builder reads (\<^verbatim>\<open>addresses_concerns\<close> as a list, in the order in which the
  builder iterates over it); the four methods are the fields of the record
  \<open>KnowledgeGraph\<close>, so every statement about the builder holds for any catalogue and
  any interaction table.
\<close>

datatype TimeOfDay = AM_ONLY | PM_ONLY | EITHER

datatype SkinConcern =
  ACNE | AGING | HYPERPIGMENTATION | DRYNESS | OILINESS
  | SENSITIVITY | REDNESS | DULLNESS | TEXTURE | PORES

datatype SkinType = NORMAL | DRY | OILY | COMBINATION | SENSITIVE

text \<open>
  Modelled from the spec: the \<^verbatim>\<open>.value\<close> of a \<^verbatim>\<open>SkinConcern\<close> member, which the
  builder prints in the ``Addresses'' line of a suggestion. The enum is declared in
  \<^verbatim>\<open>knowledge/ingredients.py\<close>; the spec lists its members in lower case.
\<close>

fun concern_value :: "SkinConcern \<Rightarrow> string" where
  "concern_value ACNE = ''acne''"
| "concern_value AGING = ''aging''"
| "concern_value HYPERPIGMENTATION = ''hyperpigmentation''"
| "concern_value DRYNESS = ''dryness''"
| "concern_value OILINESS = ''oiliness''"
| "concern_value SENSITIVITY = ''sensitivity''"
| "concern_value REDNESS = ''redness''"
| "concern_value DULLNESS = ''dullness''"
| "concern_value TEXTURE = ''texture''"
| "concern_value PORES = ''pores''"

text \<open>
  An ingredient category is an enum member; the builder compares its \<^verbatim>\<open>.value\<close> with
  string literals and puts members into a set. Enum members with distinct values are
  distinct, so a member is represented by its value.
\<close>

datatype IngredientCategory = IngredientCategory (cat_value: string)

text \<open>
  The order hint is a number: \<^verbatim>\<open>_get_step_order\<close> is annotated \<^verbatim>\<open>float\<close> and
  defaults to the integer 5. Python compares integers and finite floats by their exact
  values, which are rationals.
\<close>

record Ingredient =
  ing_id :: string
  ing_name :: string
  category :: IngredientCategory
  addresses_concerns :: "SkinConcern list"
  time_of_day :: TimeOfDay
  application_order :: rat

text \<open>
  Modelled from the spec: an interaction record carries an optional wait, a number of
  minutes. The builder tests \<^verbatim>\<open>interaction.wait_minutes\<close> for truth, so \<open>None\<close> and
  \<open>Some 0\<close> both mean ``no wait''.
\<close>

datatype InteractionType = CONFLICT | CAUTION | SYNERGY | NEUTRAL

record Interaction =
  interaction_type :: InteractionType
  wait_minutes :: "nat option"

record SkinProfile =
  skin_type :: SkinType
  concerns :: "SkinConcern set"

text \<open>
  \<^verbatim>\<open>check_compatibility\<close> returns a dict of a flag and four lists of dicts. The
  builder reads the keys \<^verbatim>\<open>ingredient_a\<close> and \<^verbatim>\<open>ingredient_b\<close> of an entry, and
  \<^verbatim>\<open>recommendation\<close> with \<^verbatim>\<open>.get\<close>, so that key may be absent.
\<close>

record CompatEntry =
  ingredient_a :: string
  ingredient_b :: string
  recommendation :: "string option"

record Compatibility =
  is_compatible :: bool
  compat_conflicts :: "CompatEntry list"
  compat_cautions :: "CompatEntry list"
  compat_synergies :: "CompatEntry list"
  compat_wait_times :: "CompatEntry list"

record KnowledgeGraph =
  get_ingredient :: "string \<Rightarrow> Ingredient option"
  get_interaction :: "string \<Rightarrow> string \<Rightarrow> Interaction option"
  check_compatibility :: "string list \<Rightarrow> Compatibility"
  get_recommended_ingredients :: "SkinProfile \<Rightarrow> Ingredient list"

section \<open>The routine model\<close>

datatype RoutineTime = AM | PM

text \<open>
  \<^verbatim>\<open>order\<close> is the position of the step, an integer. \<^verbatim>\<open>wait_after\<close> is a number of
  minutes; its default is 0 and \<^verbatim>\<open>build_routine\<close> stores in it what
  \<^verbatim>\<open>_calculate_wait_time\<close> returns. The field \<^verbatim>\<open>notes\<close> is called \<open>step_notes\<close>
  here.
\<close>

record RoutineStep =
  order :: int
  product_name :: string
  ingredients :: "string list"
  wait_after :: nat
  step_notes :: string

record RoutineAnalysis =
  is_valid :: bool
  conflicts :: "CompatEntry list"
  cautions :: "CompatEntry list"
  synergies :: "CompatEntry list"
  ordering_issues :: "string list"
  missing_essentials :: "string list"
  suggestions :: "string list"

record Routine =
  time :: RoutineTime
  steps :: "RoutineStep list"

definition get_all_ingredients :: "Routine \<Rightarrow> string list" where
  "get_all_ingredients r = concat (map ingredients (steps r))"

section \<open>Printing\<close>

text \<open>The decimal digits of a natural number, as \<^verbatim>\<open>str\<close> and f-strings print them.\<close>

definition digit_char :: "nat \<Rightarrow> char" where
  "digit_char d = char_of (48 + d)"

function str_nat :: "nat \<Rightarrow> string" where
  "str_nat n = (if n < 10 then [digit_char n] else str_nat (n div 10) @ [digit_char (n mod 10)])"
  by pat_completeness auto
termination
  by (relation "measure id") auto

declare str_nat.simps [simp del]

text \<open>\<^verbatim>\<open>', '.join(xs)\<close>.\<close>

fun join_comma :: "string list \<Rightarrow> string" where
  "join_comma [] = []"
| "join_comma [x] = x"
| "join_comma (x # y # ys) = x @ '', '' @ join_comma (y # ys)"

section \<open>RoutineBuilder: analysis\<close>

text \<open>The loop of \<^verbatim>\<open>_get_step_order\<close> and \<^verbatim>\<open>_get_product_order\<close> that appends the
  order of every ingredient id the graph resolves.\<close>

fun collect_orders :: "KnowledgeGraph \<Rightarrow> string list \<Rightarrow> rat list" where
  "collect_orders kg [] = []"
| "collect_orders kg (ing # rest) =
     (case get_ingredient kg ing of
        Some ingredient \<Rightarrow> application_order ingredient # collect_orders kg rest
      | None \<Rightarrow> collect_orders kg rest)"

definition get_step_order :: "KnowledgeGraph \<Rightarrow> RoutineStep \<Rightarrow> rat" where
  "get_step_order kg step =
     (if ingredients step = [] then 5
      else let orders = collect_orders kg (ingredients step)
           in if orders \<noteq> [] then min_list orders else 5)"

definition ordering_issue :: "RoutineStep \<Rightarrow> nat \<Rightarrow> RoutineStep \<Rightarrow> nat \<Rightarrow> string" where
  "ordering_issue step i later_step j =
     [CHR 0x27] @ product_name step @ [CHR 0x27] @ '' (step '' @ str_nat (i + 1)
       @ '') should come after '' @ [CHR 0x27] @ product_name later_step @ [CHR 0x27]
       @ '' (step '' @ str_nat (j + 1) @ '')''"

text \<open>The inner loop of \<^verbatim>\<open>_check_ordering\<close>: \<open>step\<close> is at index \<open>i\<close>, the later
  steps are \<^verbatim>\<open>routine.steps[i+1:]\<close>, enumerated from \<open>j\<close>.\<close>

fun check_later :: "KnowledgeGraph \<Rightarrow> nat \<Rightarrow> RoutineStep \<Rightarrow> nat \<Rightarrow> RoutineStep list \<Rightarrow> string list" where
  "check_later kg i step j [] = []"
| "check_later kg i step j (later_step # rest) =
     (if get_step_order kg step > get_step_order kg later_step
      then ordering_issue step i later_step j # check_later kg i step (j + 1) rest
      else check_later kg i step (j + 1) rest)"

text \<open>The outer loop, over the steps from index \<open>i\<close> on.\<close>

fun check_from :: "KnowledgeGraph \<Rightarrow> nat \<Rightarrow> RoutineStep list \<Rightarrow> string list" where
  "check_from kg i [] = []"
| "check_from kg i (step # rest) = check_later kg i step (i + 1) rest @ check_from kg (i + 1) rest"

definition check_ordering :: "KnowledgeGraph \<Rightarrow> Routine \<Rightarrow> string list" where
  "check_ordering kg routine = check_from kg 0 (steps routine)"

text \<open>\<^verbatim>\<open>any(kg.get_ingredient(i) and kg.get_ingredient(i).category.value in cats for i in ids)\<close>.\<close>

definition has_category :: "KnowledgeGraph \<Rightarrow> string list \<Rightarrow> string list \<Rightarrow> bool" where
  "has_category kg cats ids =
     list_ex (\<lambda>ing. case get_ingredient kg ing of
                      None \<Rightarrow> False
                    | Some ingredient \<Rightarrow> cat_value (category ingredient) \<in> set cats) ids"

definition check_missing_essentials :: "KnowledgeGraph \<Rightarrow> Routine \<Rightarrow> SkinProfile option \<Rightarrow> string list" where
  "check_missing_essentials kg routine profile =
     (let all_ingredients = get_all_ingredients routine in
      (if time routine = AM \<and> \<not> has_category kg [''sunscreen''] all_ingredients
       then [''Sunscreen (SPF) - essential for morning routine''] else [])
      @ (if \<not> has_category kg [''moisturizer'', ''ceramide''] all_ingredients
         then [''Moisturizer - needed to maintain skin barrier''] else []))"

definition wait_suggestion :: "CompatEntry \<Rightarrow> string" where
  "wait_suggestion wait_pair =
     ''Wait 20-30 minutes between '' @ ingredient_a wait_pair @ '' and '' @ ingredient_b wait_pair"

definition conflict_suggestion :: "CompatEntry \<Rightarrow> string" where
  "conflict_suggestion conflict =
     ''Consider removing one of: '' @ ingredient_a conflict @ '' or '' @ ingredient_b conflict
       @ ''. '' @ (case recommendation conflict of None \<Rightarrow> [] | Some r \<Rightarrow> r)"

definition generate_suggestions ::
  "KnowledgeGraph \<Rightarrow> Routine \<Rightarrow> Compatibility \<Rightarrow> SkinProfile option \<Rightarrow> string list" where
  "generate_suggestions kg routine compatibility profile =
     map wait_suggestion (compat_wait_times compatibility)
     @ map conflict_suggestion (compat_conflicts compatibility)
     @ (case profile of
          None \<Rightarrow> []
        | Some p \<Rightarrow>
            if AGING \<in> concerns p
               \<and> \<not> has_category kg [''retinoid''] (get_all_ingredients routine)
               \<and> time routine = PM
            then [''Consider adding a retinoid for anti-aging (PM routine only)'']
            else [])"

definition analyze_routine :: "KnowledgeGraph \<Rightarrow> Routine \<Rightarrow> SkinProfile option \<Rightarrow> RoutineAnalysis" where
  "analyze_routine kg routine profile =
     (let all_ingredients = get_all_ingredients routine;
          compatibility = check_compatibility kg all_ingredients;
          issues = check_ordering kg routine;
          missing = check_missing_essentials kg routine profile;
          sugg = generate_suggestions kg routine compatibility profile
      in \<lparr> is_valid = (length (compat_conflicts compatibility) = 0 \<and> length issues = 0),
           conflicts = compat_conflicts compatibility,
           cautions = compat_cautions compatibility,
           synergies = compat_synergies compatibility,
           ordering_issues = issues,
           missing_essentials = missing,
           suggestions = sugg \<rparr>)"

section \<open>RoutineBuilder: building a routine\<close>

text \<open>
  A product is a dict with the keys \<^verbatim>\<open>name\<close> and \<^verbatim>\<open>ingredients\<close>, as the comment
  on the parameter of \<^verbatim>\<open>build_routine\<close> gives it.
\<close>

record Product =
  name :: string
  product_ingredients :: "string list"

definition get_product_order :: "KnowledgeGraph \<Rightarrow> string list \<Rightarrow> rat" where
  "get_product_order kg ingredient_ids =
     (if ingredient_ids = [] then 5
      else let orders = collect_orders kg ingredient_ids
           in if orders \<noteq> [] then min_list orders else 5)"

fun check_time_appropriateness :: "KnowledgeGraph \<Rightarrow> string list \<Rightarrow> RoutineTime \<Rightarrow> bool \<times> string" where
  "check_time_appropriateness kg [] t = (True, [])"
| "check_time_appropriateness kg (ing # rest) t =
     (case get_ingredient kg ing of
        None \<Rightarrow> check_time_appropriateness kg rest t
      | Some ingredient \<Rightarrow>
          if t = AM then
            (if time_of_day ingredient = PM_ONLY
             then (False, ing_name ingredient @ '' should only be used at night'')
             else check_time_appropriateness kg rest t)
          else
            (if time_of_day ingredient = AM_ONLY
             then (False, ing_name ingredient @ '' should only be used in the morning'')
             else check_time_appropriateness kg rest t))"

text \<open>The two loops of \<^verbatim>\<open>_calculate_wait_time\<close>, threading \<^verbatim>\<open>max_wait\<close>.\<close>

fun wait_over_next :: "KnowledgeGraph \<Rightarrow> string \<Rightarrow> string list \<Rightarrow> nat \<Rightarrow> nat" where
  "wait_over_next kg curr_id [] max_wait = max_wait"
| "wait_over_next kg curr_id (next_id # rest) max_wait =
     wait_over_next kg curr_id rest
       (case get_interaction kg curr_id next_id of
          None \<Rightarrow> max_wait
        | Some interaction \<Rightarrow>
            (case wait_minutes interaction of
               None \<Rightarrow> max_wait
             | Some w \<Rightarrow> if w \<noteq> 0 then max max_wait w else max_wait))"

fun wait_over_current :: "KnowledgeGraph \<Rightarrow> string list \<Rightarrow> string list \<Rightarrow> nat \<Rightarrow> nat" where
  "wait_over_current kg [] next_ingredients max_wait = max_wait"
| "wait_over_current kg (curr_id # rest) next_ingredients max_wait =
     wait_over_current kg rest next_ingredients (wait_over_next kg curr_id next_ingredients max_wait)"

definition calculate_wait_time :: "KnowledgeGraph \<Rightarrow> string list \<Rightarrow> string list \<Rightarrow> nat" where
  "calculate_wait_time kg current_ingredients next_ingredients =
     wait_over_current kg current_ingredients next_ingredients 0"

text \<open>
  The loop of \<^verbatim>\<open>build_routine\<close> over \<^verbatim>\<open>enumerate(sorted_products)\<close>: the product at
  index \<open>i\<close> is the head of the list, \<^verbatim>\<open>sorted_products[i+1]\<close> is the head of the
  rest when there is one.
\<close>

fun build_steps :: "KnowledgeGraph \<Rightarrow> RoutineTime \<Rightarrow> nat \<Rightarrow> Product list \<Rightarrow> RoutineStep list" where
  "build_steps kg t i [] = []"
| "build_steps kg t i (product # rest) =
     (let (time_ok, time_note) = check_time_appropriateness kg (product_ingredients product) t;
          wait_time = calculate_wait_time kg (product_ingredients product)
                        (case rest of [] \<Rightarrow> [] | nxt # _ \<Rightarrow> product_ingredients nxt)
      in \<lparr> order = int i + 1,
           product_name = name product,
           ingredients = product_ingredients product,
           wait_after = wait_time,
           step_notes = (if \<not> time_ok then time_note else []) \<rparr>
         # build_steps kg t (i + 1) rest)"

text \<open>
  \<^verbatim>\<open>sorted(products, key=...)\<close> is Python's stable sort by key; \<open>sort_key\<close> is the
  stable sort by key of the list library.
\<close>

definition build_routine ::
  "KnowledgeGraph \<Rightarrow> Product list \<Rightarrow> RoutineTime \<Rightarrow> SkinProfile option \<Rightarrow> Routine \<times> RoutineAnalysis" where
  "build_routine kg products t profile =
     (let sorted_products = sort_key (\<lambda>p. get_product_order kg (product_ingredients p)) products;
          routine = \<lparr> time = t, steps = build_steps kg t 0 sorted_products \<rparr>;
          analysis = analyze_routine kg routine profile
      in (routine, analysis))"

section \<open>RoutineBuilder: suggesting a routine\<close>

record StepSuggestion =
  step :: string
  why :: string
  suggested_ingredients :: "string list"
  priority :: string

definition cleanser_step :: StepSuggestion where
  "cleanser_step =
     \<lparr> step = ''Cleanser'', why = ''Removes dirt, oil, and products'',
       suggested_ingredients = [''cleanser''], priority = ''essential'' \<rparr>"

definition moisturizer_step :: StepSuggestion where
  "moisturizer_step =
     \<lparr> step = ''Moisturizer'', why = ''Maintains skin barrier and hydration'',
       suggested_ingredients = [''ceramides'', ''hyaluronic_acid''], priority = ''essential'' \<rparr>"

definition sunscreen_step :: StepSuggestion where
  "sunscreen_step =
     \<lparr> step = ''Sunscreen (SPF 30+)'', why = ''Protects from UV damage - the #1 anti-aging step'',
       suggested_ingredients = [''spf''], priority = ''essential'' \<rparr>"

definition treatment_step :: "SkinProfile \<Rightarrow> Ingredient \<Rightarrow> StepSuggestion" where
  "treatment_step profile ingredient =
     (let concerns_addressed =
            map concern_value (filter (\<lambda>c. c \<in> concerns profile) (addresses_concerns ingredient))
      in \<lparr> step = ''Treatment: '' @ ing_name ingredient,
           why = ''Addresses: '' @ join_comma concerns_addressed,
           suggested_ingredients = [ing_id ingredient],
           priority = ''recommended'' \<rparr>)"

definition time_appropriate :: "RoutineTime \<Rightarrow> Ingredient \<Rightarrow> bool" where
  "time_appropriate t ing =
     ((t = AM \<and> time_of_day ing \<noteq> PM_ONLY) \<or> (t = PM \<and> time_of_day ing \<noteq> AM_ONLY))"

text \<open>The treatment loop, threading the set \<^verbatim>\<open>added_categories\<close>.\<close>

fun add_treatments :: "SkinProfile \<Rightarrow> Ingredient list \<Rightarrow> IngredientCategory set \<Rightarrow> StepSuggestion list" where
  "add_treatments profile [] added_categories = []"
| "add_treatments profile (ingredient # rest) added_categories =
     (if category ingredient \<notin> added_categories
      then treatment_step profile ingredient
             # add_treatments profile rest (insert (category ingredient) added_categories)
      else add_treatments profile rest added_categories)"

definition suggest_routine ::
  "KnowledgeGraph \<Rightarrow> SkinProfile \<Rightarrow> RoutineTime \<Rightarrow> string \<Rightarrow> StepSuggestion list" where
  "suggest_routine kg profile t budget =
     (let recommended = get_recommended_ingredients kg profile;
          time_appropriate_list = filter (time_appropriate t) recommended
      in [cleanser_step]
         @ add_treatments profile (take 5 time_appropriate_list) {}
         @ [moisturizer_step]
         @ (if t = AM then [sunscreen_step] else []))"

section \<open>RoutineAnalyzer: comparing two products\<close>

record ProductComparison =
  can_use_together :: bool
  found_conflicts :: "CompatEntry list"
  found_cautions :: "CompatEntry list"
  found_synergies :: "CompatEntry list"
  advice :: string

definition generate_combination_advice :: "Compatibility \<Rightarrow> string" where
  "generate_combination_advice compatibility =
     (if compat_conflicts compatibility \<noteq> []
      then ''These products should NOT be used together in the same routine.''
      else if compat_cautions compatibility \<noteq> []
      then ''These can be used together with caution. Consider using on alternate days if irritation occurs.''
      else if compat_synergies compatibility \<noteq> []
      then ''Great combination! These products complement each other well.''
      else ''No known interactions. Should be safe to use together.'')"

text \<open>The result dict of \<^verbatim>\<open>compare_products\<close>; its keys \<^verbatim>\<open>conflicts\<close>, \<^verbatim>\<open>cautions\<close>,
  \<^verbatim>\<open>synergies\<close> and \<^verbatim>\<open>recommendation\<close> are the fields \<open>found_conflicts\<close>,
  \<open>found_cautions\<close>, \<open>found_synergies\<close> and \<open>advice\<close>.\<close>

definition compare_products :: "KnowledgeGraph \<Rightarrow> string list \<Rightarrow> string list \<Rightarrow> ProductComparison" where
  "compare_products kg product_a product_b =
     (let all_ingredients = product_a @ product_b;
          compatibility = check_compatibility kg all_ingredients
      in \<lparr> can_use_together = is_compatible compatibility,
           found_conflicts = compat_conflicts compatibility,
           found_cautions = compat_cautions compatibility,
           found_synergies = compat_synergies compatibility,
           advice = generate_combination_advice compatibility \<rparr>)"

section \<open>Notions used to state the properties\<close>

text \<open>The pairs of step indices \<open>(i, j)\<close> with \<open>i\<close> before \<open>j\<close>, among \<open>n\<close> steps, in the
  order in which the two loops of the ordering check visit them.\<close>

definition later_pairs :: "nat \<Rightarrow> (nat \<times> nat) list" where
  "later_pairs n = concat (map (\<lambda>i. map (\<lambda>j. (i, j)) [i + 1..<n]) [0..<n])"

definition out_of_order :: "KnowledgeGraph \<Rightarrow> RoutineStep list \<Rightarrow> nat \<times> nat \<Rightarrow> bool" where
  "out_of_order kg ss p = (get_step_order kg (ss ! fst p) > get_step_order kg (ss ! snd p))"

definition issue_at :: "RoutineStep list \<Rightarrow> nat \<times> nat \<Rightarrow> string" where
  "issue_at ss p = ordering_issue (ss ! fst p) (fst p) (ss ! snd p) (snd p)"

text \<open>The order hints of the ingredient ids of a list that the catalogue resolves.\<close>

definition resolved_orders :: "KnowledgeGraph \<Rightarrow> string list \<Rightarrow> rat set" where
  "resolved_orders kg ids =
     {application_order ingredient | ing ingredient.
        ing \<in> set ids \<and> get_ingredient kg ing = Some ingredient}"

text \<open>The product a step was built from, and the key the products are sorted by.\<close>

definition product_of :: "RoutineStep \<Rightarrow> Product" where
  "product_of s = \<lparr> name = product_name s, product_ingredients = ingredients s \<rparr>"

definition effective_order :: "KnowledgeGraph \<Rightarrow> Product \<Rightarrow> rat" where
  "effective_order kg p = get_product_order kg (product_ingredients p)"

text \<open>The waits carried by the interaction records of the cross pairs of two ingredient
  lists.\<close>

definition cross_waits :: "KnowledgeGraph \<Rightarrow> string list \<Rightarrow> string list \<Rightarrow> nat set" where
  "cross_waits kg current_ingredients next_ingredients =
     {w | a b interaction w.
        a \<in> set current_ingredients \<and> b \<in> set next_ingredients
        \<and> get_interaction kg a b = Some interaction \<and> wait_minutes interaction = Some w}"

text \<open>Some ingredient id of the list resolves to an ingredient of the category.\<close>

definition resolves_to_category :: "KnowledgeGraph \<Rightarrow> string \<Rightarrow> string list \<Rightarrow> bool" where
  "resolves_to_category kg cat ids =
     (\<exists>ing ingredient. ing \<in> set ids \<and> get_ingredient kg ing = Some ingredient
        \<and> cat_value (category ingredient) = cat)"

text \<open>The sunscreen entry as the builder writes it, with a hyphen, and as the
  specification quotes it, with an em dash (three bytes in UTF-8).\<close>

definition sunscreen_entry :: string where
  "sunscreen_entry = ''Sunscreen (SPF) - essential for morning routine''"

definition sunscreen_entry_quoted :: string where
  "sunscreen_entry_quoted =
     ''Sunscreen (SPF) '' @ [CHR 0xE2, CHR 0x80, CHR 0x94] @ '' essential for morning routine''"

text \<open>An ingredient restricted to the time of day opposite to the routine's, and the note
  that flags it.\<close>

definition restricted_opposite :: "RoutineTime \<Rightarrow> Ingredient \<Rightarrow> bool" where
  "restricted_opposite t ingredient =
     ((t = AM \<and> time_of_day ingredient = PM_ONLY) \<or> (t = PM \<and> time_of_day ingredient = AM_ONLY))"

definition opposite_note :: "RoutineTime \<Rightarrow> Ingredient \<Rightarrow> string" where
  "opposite_note t ingredient =
     ing_name ingredient
       @ (if t = AM then '' should only be used at night''
          else '' should only be used in the morning'')"

definition flagged :: "KnowledgeGraph \<Rightarrow> RoutineTime \<Rightarrow> string list \<Rightarrow> bool" where
  "flagged kg t ids =
     (\<exists>ing ingredient. ing \<in> set ids \<and> get_ingredient kg ing = Some ingredient
        \<and> restricted_opposite t ingredient)"

text \<open>The wait of one pair of ingredient ids: that of its interaction record, and 0
  when the pair has no record or the record has no wait.\<close>

definition pair_wait :: "KnowledgeGraph \<Rightarrow> string \<Rightarrow> string \<Rightarrow> nat" where
  "pair_wait kg a b =
     (case get_interaction kg a b of
        None \<Rightarrow> 0
      | Some interaction \<Rightarrow> (case wait_minutes interaction of None \<Rightarrow> 0 | Some w \<Rightarrow> w))"

text \<open>The ingredients the treatment loop of \<open>suggest_routine\<close> makes a step for: of a
  list, those whose category has not occurred before.\<close>

fun first_per_category :: "Ingredient list \<Rightarrow> IngredientCategory set \<Rightarrow> Ingredient list" where
  "first_per_category [] added_categories = []"
| "first_per_category (ingredient # rest) added_categories =
     (if category ingredient \<notin> added_categories
      then ingredient # first_per_category rest (insert (category ingredient) added_categories)
      else first_per_category rest added_categories)"

text \<open>The treatments of a suggested routine: chosen among the first five recommended
  ingredients that suit the time of day.\<close>

definition chosen_treatments :: "KnowledgeGraph \<Rightarrow> SkinProfile \<Rightarrow> RoutineTime \<Rightarrow> Ingredient list" where
  "chosen_treatments kg profile t =
     first_per_category (take 5 (filter (time_appropriate t) (get_recommended_ingredients kg profile))) {}"

section \<open>A small catalogue for the examples\<close>

text \<open>
  The properties below are proved for every knowledge graph. To evaluate them on concrete
  routines, this section fixes a graph of five ingredients with one interaction, the
  caution between retinol and vitamin C with its wait of 20 minutes, and a few products
  and routines over it. The id \<open>squalane\<close> used by one product is not in the catalogue.
\<close>

definition retinol :: Ingredient where
  "retinol = \<lparr> ing_id = ''retinol'', ing_name = ''Retinol'',
     category = IngredientCategory ''retinoid'', addresses_concerns = [AGING, ACNE],
     time_of_day = PM_ONLY, application_order = 5 \<rparr>"

definition vitamin_c :: Ingredient where
  "vitamin_c = \<lparr> ing_id = ''vitamin_c'', ing_name = ''Vitamin C'',
     category = IngredientCategory ''serum_active'', addresses_concerns = [AGING, DULLNESS],
     time_of_day = EITHER, application_order = 4 \<rparr>"

definition bakuchiol :: Ingredient where
  "bakuchiol = \<lparr> ing_id = ''bakuchiol'', ing_name = ''Bakuchiol'',
     category = IngredientCategory ''serum_active'', addresses_concerns = [AGING],
     time_of_day = EITHER, application_order = 5 \<rparr>"

definition ceramides :: Ingredient where
  "ceramides = \<lparr> ing_id = ''ceramides'', ing_name = ''Ceramides'',
     category = IngredientCategory ''ceramide'', addresses_concerns = [DRYNESS],
     time_of_day = EITHER, application_order = 8 \<rparr>"

definition spf :: Ingredient where
  "spf = \<lparr> ing_id = ''spf'', ing_name = ''Sunscreen'',
     category = IngredientCategory ''sunscreen'', addresses_concerns = [AGING],
     time_of_day = AM_ONLY, application_order = 10 \<rparr>"

definition example_ingredient :: "string \<Rightarrow> Ingredient option" where
  "example_ingredient ing =
     (if ing = ''retinol'' then Some retinol
      else if ing = ''vitamin_c'' then Some vitamin_c
      else if ing = ''bakuchiol'' then Some bakuchiol
      else if ing = ''ceramides'' then Some ceramides
      else if ing = ''spf'' then Some spf
      else None)"

definition example_interaction :: "string \<Rightarrow> string \<Rightarrow> Interaction option" where
  "example_interaction a b =
     (if (a = ''retinol'' \<and> b = ''vitamin_c'') \<or> (a = ''vitamin_c'' \<and> b = ''retinol'')
      then Some \<lparr> interaction_type = CAUTION, wait_minutes = Some 20 \<rparr>
      else None)"

definition example_compatibility :: "string list \<Rightarrow> Compatibility" where
  "example_compatibility ids =
     (if ''retinol'' \<in> set ids \<and> ''vitamin_c'' \<in> set ids
      then \<lparr> is_compatible = True, compat_conflicts = [],
             compat_cautions = [\<lparr> ingredient_a = ''retinol'', ingredient_b = ''vitamin_c'',
                                  recommendation = None \<rparr>],
             compat_synergies = [],
             compat_wait_times = [\<lparr> ingredient_a = ''retinol'', ingredient_b = ''vitamin_c'',
                                    recommendation = None \<rparr>] \<rparr>
      else \<lparr> is_compatible = True, compat_conflicts = [], compat_cautions = [],
             compat_synergies = [], compat_wait_times = [] \<rparr>)"

definition example_recommended :: "SkinProfile \<Rightarrow> Ingredient list" where
  "example_recommended profile =
     filter (\<lambda>ingredient. list_ex (\<lambda>c. c \<in> concerns profile) (addresses_concerns ingredient))
       [retinol, vitamin_c, bakuchiol, ceramides, spf]"

definition example_kg :: KnowledgeGraph where
  "example_kg = \<lparr> get_ingredient = example_ingredient, get_interaction = example_interaction,
     check_compatibility = example_compatibility,
     get_recommended_ingredients = example_recommended \<rparr>"

definition aging_profile :: SkinProfile where
  "aging_profile = \<lparr> skin_type = NORMAL, concerns = {AGING} \<rparr>"

definition night_cream :: Product where
  "night_cream = \<lparr> name = ''Night cream'', product_ingredients = [''ceramides''] \<rparr>"

definition retinol_serum :: Product where
  "retinol_serum = \<lparr> name = ''Retinol serum'', product_ingredients = [''retinol'', ''squalane''] \<rparr>"

definition c_serum :: Product where
  "c_serum = \<lparr> name = ''C serum'', product_ingredients = [''vitamin_c''] \<rparr>"

definition day_fluid :: Product where
  "day_fluid = \<lparr> name = ''Day fluid'', product_ingredients = [''spf''] \<rparr>"

definition bakuchiol_oil :: Product where
  "bakuchiol_oil = \<lparr> name = ''Bakuchiol oil'', product_ingredients = [''bakuchiol''] \<rparr>"

definition shuffled_routine :: Routine where
  "shuffled_routine = \<lparr> time = PM, steps =
     [\<lparr> order = 1, product_name = ''Night cream'', ingredients = [''ceramides''],
        wait_after = 0, step_notes = [] \<rparr>,
      \<lparr> order = 2, product_name = ''Retinol serum'', ingredients = [''retinol'', ''squalane''],
        wait_after = 0, step_notes = [] \<rparr>,
      \<lparr> order = 3, product_name = ''C serum'', ingredients = [''vitamin_c''],
        wait_after = 0, step_notes = [] \<rparr>] \<rparr>"

definition layered_routine :: Routine where
  "layered_routine = \<lparr> time = PM, steps =
     [\<lparr> order = 1, product_name = ''C serum'', ingredients = [''vitamin_c''],
        wait_after = 20, step_notes = [] \<rparr>,
      \<lparr> order = 2, product_name = ''Retinol serum'', ingredients = [''retinol'', ''squalane''],
        wait_after = 0, step_notes = [] \<rparr>,
      \<lparr> order = 3, product_name = ''Night cream'', ingredients = [''ceramides''],
        wait_after = 0, step_notes = [] \<rparr>] \<rparr>"

definition bare_morning :: Routine where
  "bare_morning = \<lparr> time = AM, steps = [] \<rparr>"

definition day_fluid_step :: RoutineStep where
  "day_fluid_step = \<lparr> order = 1, product_name = ''Day fluid'', ingredients = [''spf''],
     wait_after = 0, step_notes = [] \<rparr>"

definition morning_products :: "Product list" where
  "morning_products = [night_cream, retinol_serum, c_serum, day_fluid]"

section \<open>The ordering check visits every pair of steps\<close>

lemma check_later_drop:
  "check_later kg i s j (drop j ss) =
     map (\<lambda>l. ordering_issue s i (ss ! l) l)
       (filter (\<lambda>l. get_step_order kg s > get_step_order kg (ss ! l)) [j..<length ss])"
proof (induction "length ss - j" arbitrary: j)
  case 0
  then show ?case by simp
next
  case (Suc d)
  then have j: "j < length ss" by simp
  have d: "d = length ss - Suc j" using Suc.hyps(2) by simp
  have "drop j ss = ss ! j # drop (Suc j) ss" using j by (simp add: Cons_nth_drop_Suc)
  then show ?case using Suc.hyps(1)[OF d] j by (simp add: upt_conv_Cons)
qed

lemma check_from_drop:
  "check_from kg i (drop i ss) =
     concat (map (\<lambda>k. map (\<lambda>l. ordering_issue (ss ! k) k (ss ! l) l)
       (filter (\<lambda>l. get_step_order kg (ss ! k) > get_step_order kg (ss ! l)) [k + 1..<length ss]))
       [i..<length ss])"
proof (induction "length ss - i" arbitrary: i)
  case 0
  then show ?case by simp
next
  case (Suc d)
  then have i: "i < length ss" by simp
  have d: "d = length ss - Suc i" using Suc.hyps(2) by simp
  have "drop i ss = ss ! i # drop (Suc i) ss" using i by (simp add: Cons_nth_drop_Suc)
  then show ?case using Suc.hyps(1)[OF d] i check_later_drop[of kg i "ss ! i" "Suc i" ss]
    by (simp add: upt_conv_Cons)
qed

lemma filter_later_pairs:
  "filter P (later_pairs n) = concat (map (\<lambda>i. map (\<lambda>j. (i, j)) (filter (\<lambda>j. P (i, j)) [i + 1..<n])) [0..<n])"
  by (simp add: later_pairs_def filter_concat filter_map comp_def)

lemma check_ordering_pairs:
  "check_ordering kg r = map (issue_at (steps r)) (filter (out_of_order kg (steps r)) (later_pairs (length (steps r))))"
  using check_from_drop[of kg 0 "steps r"]
  by (simp add: check_ordering_def filter_later_pairs map_concat comp_def issue_at_def out_of_order_def)

lemma set_later_pairs: "set (later_pairs n) = {(i, j). i < j \<and> j < n}"
  by (force simp: later_pairs_def)

lemma later_row_inj:
  assumes "x < n" "y < n" "map (Pair x) [Suc x..<n] = map (Pair y) [Suc y..<n]"
  shows "x = y"
proof -
  have "length (map (Pair x) [Suc x..<n]) = length (map (Pair y) [Suc y..<n])"
    using assms(3) by simp
  then show ?thesis using assms(1,2) by simp
qed

lemma distinct_later_pairs: "distinct (later_pairs n)"
  unfolding later_pairs_def
  by (rule distinct_concat) (auto simp: distinct_map inj_on_def dest: later_row_inj)

lemma length_check_ordering:
  "length (check_ordering kg r) =
     card {(i, j). i < j \<and> j < length (steps r)
                  \<and> get_step_order kg (steps r ! i) > get_step_order kg (steps r ! j)}"
proof -
  have "length (check_ordering kg r)
          = card ({p. out_of_order kg (steps r) p} \<inter> set (later_pairs (length (steps r))))"
    by (simp add: check_ordering_pairs distinct_length_filter distinct_later_pairs)
  also have "{p. out_of_order kg (steps r) p} \<inter> set (later_pairs (length (steps r)))
          = {(i, j). i < j \<and> j < length (steps r)
                  \<and> get_step_order kg (steps r ! i) > get_step_order kg (steps r ! j)}"
    by (auto simp: set_later_pairs out_of_order_def)
  finally show ?thesis .
qed

lemma sorted_no_issue:
  assumes "sorted (map (get_step_order kg) (steps r))"
  shows "check_ordering kg r = []"
proof -
  have "\<not> out_of_order kg (steps r) p" if "p \<in> set (later_pairs (length (steps r)))" for p
  proof -
    from that have "fst p < snd p" "snd p < length (steps r)"
      by (auto simp: set_later_pairs)
    then have "map (get_step_order kg) (steps r) ! fst p \<le> map (get_step_order kg) (steps r) ! snd p"
      using assms by (simp add: sorted_iff_nth_mono)
    then show ?thesis using \<open>fst p < snd p\<close> \<open>snd p < length (steps r)\<close>
      by (simp add: out_of_order_def)
  qed
  then have "filter (out_of_order kg (steps r)) (later_pairs (length (steps r))) = []"
    by (simp add: filter_empty_conv)
  then show ?thesis by (simp add: check_ordering_pairs)
qed

section \<open>Facts about the steps of a built routine\<close>

lemma product_of_build_steps: "map product_of (build_steps kg t i ps) = ps"
  by (induction ps arbitrary: i) (auto simp: product_of_def Let_def split: prod.splits)

lemma length_build_steps: "length (build_steps kg t i ps) = length ps"
  by (induction ps arbitrary: i) (auto simp: Let_def split: prod.splits)

lemma order_build_steps: "map order (build_steps kg t i ps) = map (\<lambda>k. int k + 1) [i..<i + length ps]"
proof (induction ps arbitrary: i)
  case Nil
  then show ?case by simp
next
  case (Cons p ps)
  have "[i..<i + length (p # ps)] = i # [Suc i..<Suc i + length ps]"
    using upt_conv_Cons[of i "i + Suc (length ps)"] by simp
  then show ?case using Cons.IH[of "Suc i"] by (simp add: Let_def split: prod.splits)
qed

lemma set_collect_orders: "set (collect_orders kg ids) = resolved_orders kg ids"
  by (induction ids) (auto simp: resolved_orders_def split: option.splits)

lemma get_product_order_Min:
  "get_product_order kg ids = (if resolved_orders kg ids = {} then 5 else Min (resolved_orders kg ids))"
proof (cases "collect_orders kg ids = []")
  case True
  then have "resolved_orders kg ids = {}" using set_collect_orders[of kg ids] by simp
  then show ?thesis using True by (simp add: get_product_order_def)
next
  case False
  then have "resolved_orders kg ids \<noteq> {}" using set_collect_orders[of kg ids] by auto
  moreover have "ids \<noteq> []" using False by auto
  ultimately show ?thesis using False
    by (simp add: get_product_order_def min_list_Min set_collect_orders)
qed

lemma get_step_order_product: "get_step_order kg s = get_product_order kg (ingredients s)"
  by (simp add: get_step_order_def get_product_order_def)

lemma build_routine_steps:
  "steps (fst (build_routine kg ps t profile)) = build_steps kg t 0 (sort_key (effective_order kg) ps)"
proof -
  have "effective_order kg = (\<lambda>p. get_product_order kg (product_ingredients p))"
    by (rule ext) (simp add: effective_order_def)
  then show ?thesis by (simp add: build_routine_def Let_def)
qed

lemma products_of_build_routine:
  "map product_of (steps (fst (build_routine kg ps t profile))) = sort_key (effective_order kg) ps"
  by (simp add: build_routine_steps product_of_build_steps)


lemma wait_over_next_Max:
  "wait_over_next kg a bs m = Max (insert m (pair_wait kg a ` set bs))"
proof (induction bs arbitrary: m)
  case Nil
  then show ?case by simp
next
  case (Cons b bs)
  have step: "wait_over_next kg a (b # bs) m = wait_over_next kg a bs (max m (pair_wait kg a b))"
    by (simp add: pair_wait_def max_def split: option.splits)
  have "Max (insert (max m (pair_wait kg a b)) (pair_wait kg a ` set bs))
      = Max (insert m (insert (pair_wait kg a b) (pair_wait kg a ` set bs)))"
    by (cases "set bs = {}") (simp_all add: max.assoc)
  then show ?case using Cons.IH[of "max m (pair_wait kg a b)"] step by simp
qed

lemma wait_over_current_Max:
  "wait_over_current kg as bs m = Max (insert m (\<Union>a\<in>set as. pair_wait kg a ` set bs))"
proof (induction as arbitrary: m)
  case Nil
  then show ?case by simp
next
  case (Cons a as)
  let ?A = "pair_wait kg a ` set bs" and ?B = "\<Union>a\<in>set as. pair_wait kg a ` set bs"
  have fin: "finite ?A" "finite ?B" by simp_all
  have "Max (insert (Max (insert m ?A)) ?B) = Max (insert m (?A \<union> ?B))"
  proof (rule antisym)
    show "Max (insert (Max (insert m ?A)) ?B) \<le> Max (insert m (?A \<union> ?B))"
      using fin by (auto intro!: Max.boundedI Max_ge)
    show "Max (insert m (?A \<union> ?B)) \<le> Max (insert (Max (insert m ?A)) ?B)"
      using fin by (auto intro!: Max.boundedI intro: Max_ge_iff[THEN iffD2])
  qed
  then show ?case using Cons.IH[of "wait_over_next kg a bs m"]
    by (simp add: wait_over_next_Max)
qed

lemma finite_cross_waits: "finite (cross_waits kg as bs)"
proof -
  have "cross_waits kg as bs \<subseteq> (\<Union>a\<in>set as. pair_wait kg a ` set bs)"
    by (force simp: cross_waits_def pair_wait_def)
  then show ?thesis by (rule finite_subset) simp
qed

lemma calculate_wait_time_Max:
  "calculate_wait_time kg as bs = (if cross_waits kg as bs = {} then 0 else Max (cross_waits kg as bs))"
proof -
  let ?P = "\<Union>a\<in>set as. pair_wait kg a ` set bs"
  have sub1: "cross_waits kg as bs \<subseteq> ?P"
    by (force simp: cross_waits_def pair_wait_def)
  have sub2: "?P \<subseteq> insert 0 (cross_waits kg as bs)"
    by (fastforce simp: cross_waits_def pair_wait_def split: option.splits)
  have "insert 0 ?P = insert 0 (cross_waits kg as bs)" using sub1 sub2 by auto
  then have "calculate_wait_time kg as bs = Max (insert 0 (cross_waits kg as bs))"
    by (simp add: calculate_wait_time_def wait_over_current_Max)
  then show ?thesis using finite_cross_waits[of kg as bs] by (auto simp: max_def)
qed

lemma wait_after_build_steps:
  "i < length ps \<Longrightarrow>
   wait_after (build_steps kg t k ps ! i)
     = calculate_wait_time kg (product_ingredients (ps ! i))
         (if Suc i < length ps then product_ingredients (ps ! Suc i) else [])"
proof (induction ps arbitrary: i k)
  case Nil
  then show ?case by simp
next
  case (Cons p ps)
  show ?case
  proof (cases i)
    case 0
    then show ?thesis by (cases ps) (simp_all add: Let_def split: prod.splits)
  next
    case (Suc j)
    then show ?thesis using Cons.IH[of j "k + 1"] Cons.prems by (simp add: Let_def split: prod.splits)
  qed
qed

lemma no_wait_without_next: "calculate_wait_time kg xs [] = 0"
  by (simp add: calculate_wait_time_Max cross_waits_def)

lemma wait_after_last_build_steps:
  "ps \<noteq> [] \<Longrightarrow> wait_after (last (build_steps kg t k ps)) = 0"
proof -
  assume ne: "ps \<noteq> []"
  then have i: "length ps - 1 < length ps" by simp
  have "build_steps kg t k ps \<noteq> []" using ne length_build_steps[of kg t k ps] by auto
  then have "last (build_steps kg t k ps) = build_steps kg t k ps ! (length ps - 1)"
    by (simp add: last_conv_nth length_build_steps)
  then show ?thesis using wait_after_build_steps[OF i, of kg t k] ne
    by (simp add: no_wait_without_next)
qed

lemma nth_product_of_build_steps:
  "i < length ps \<Longrightarrow> ingredients (build_steps kg t k ps ! i) = product_ingredients (ps ! i)"
proof -
  assume i: "i < length ps"
  have "map product_of (build_steps kg t k ps) ! i = ps ! i"
    by (simp add: product_of_build_steps)
  then have "product_of (build_steps kg t k ps ! i) = ps ! i"
    using i by (simp add: length_build_steps)
  then show ?thesis by (simp add: product_of_def) (metis Product.select_convs(2))
qed

lemma has_category_single:
  "has_category kg [cat] ids = resolves_to_category kg cat ids"
  by (auto simp: has_category_def resolves_to_category_def list_ex_iff split: option.splits)

lemma sunscreen_entry_in_missing:
  "(sunscreen_entry \<in> set (check_missing_essentials kg r profile))
     = (time r = AM \<and> \<not> resolves_to_category kg ''sunscreen'' (get_all_ingredients r))"
  by (simp add: check_missing_essentials_def Let_def has_category_single sunscreen_entry_def)

lemma quoted_entry_never_missing:
  "sunscreen_entry_quoted \<notin> set (check_missing_essentials kg r profile)"
  by (simp add: check_missing_essentials_def Let_def sunscreen_entry_quoted_def)

lemma missing_essentials_analyze:
  "missing_essentials (analyze_routine kg r profile) = check_missing_essentials kg r profile"
  by (simp add: analyze_routine_def Let_def)

lemma resolves_to_category_append:
  "resolves_to_category kg cat (xs @ ys) = (resolves_to_category kg cat xs \<or> resolves_to_category kg cat ys)"
  by (auto simp: resolves_to_category_def)

lemma opposite_note_nonempty: "opposite_note t ingredient \<noteq> []"
  by (simp add: opposite_note_def)

lemma flagged_Cons:
  "flagged kg t (a # ids)
     = ((\<exists>ingredient. get_ingredient kg a = Some ingredient \<and> restricted_opposite t ingredient)
        \<or> flagged kg t ids)"
  by (auto simp: flagged_def)

lemma check_time_ok:
  "fst (check_time_appropriateness kg ids t) = (\<not> flagged kg t ids)"
proof (induction ids)
  case Nil
  then show ?case by (simp add: flagged_def)
next
  case (Cons a ids)
  show ?case
  proof (cases "get_ingredient kg a")
    case None
    then show ?thesis using Cons by (simp add: flagged_Cons)
  next
    case (Some ingredient)
    then show ?thesis using Cons
      by (cases t) (auto simp: flagged_Cons restricted_opposite_def)
  qed
qed

lemma check_time_note:
  "\<not> fst (check_time_appropriateness kg ids t) \<Longrightarrow>
     \<exists>ing ingredient. ing \<in> set ids \<and> get_ingredient kg ing = Some ingredient
        \<and> restricted_opposite t ingredient
        \<and> snd (check_time_appropriateness kg ids t) = opposite_note t ingredient"
proof (induction ids)
  case Nil
  then show ?case by simp
next
  case (Cons a ids)
  show ?case
  proof (cases "get_ingredient kg a")
    case None
    then show ?thesis using Cons by auto
  next
    case (Some ingredient)
    show ?thesis
    proof (cases "restricted_opposite t ingredient")
      case True
      then have "snd (check_time_appropriateness kg (a # ids) t) = opposite_note t ingredient"
        using Some by (cases t) (auto simp: restricted_opposite_def opposite_note_def)
      then show ?thesis using Some True by auto
    next
      case False
      then have "check_time_appropriateness kg (a # ids) t = check_time_appropriateness kg ids t"
        using Some by (cases t) (auto simp: restricted_opposite_def)
      then show ?thesis using Cons by auto
    qed
  qed
qed

lemma build_steps_Cons:
  "build_steps kg t i (p # rest) =
     \<lparr> order = int i + 1, product_name = name p, ingredients = product_ingredients p,
       wait_after = calculate_wait_time kg (product_ingredients p)
                      (case rest of [] \<Rightarrow> [] | nxt # _ \<Rightarrow> product_ingredients nxt),
       step_notes = (if fst (check_time_appropriateness kg (product_ingredients p) t) then []
                     else snd (check_time_appropriateness kg (product_ingredients p) t)) \<rparr>
     # build_steps kg t (i + 1) rest"
  by (simp add: Let_def case_prod_beta)

lemma notes_build_steps:
  "s \<in> set (build_steps kg t k ps) \<Longrightarrow>
     step_notes s = (if fst (check_time_appropriateness kg (ingredients s) t) then []
                     else snd (check_time_appropriateness kg (ingredients s) t))"
proof (induction ps arbitrary: k)
  case Nil
  then show ?case by simp
next
  case (Cons p ps)
  from Cons.prems consider "s = hd (build_steps kg t k (p # ps))" | "s \<in> set (build_steps kg t (k + 1) ps)"
    by (auto simp only: build_steps_Cons set_simps list.sel)
  then show ?case
  proof cases
    case 1
    then show ?thesis by (simp only: build_steps_Cons list.sel) simp
  next
    case 2
    then show ?thesis by (rule Cons.IH)
  qed
qed

lemma add_treatments_first_per_category:
  "add_treatments profile xs added = map (treatment_step profile) (first_per_category xs added)"
  by (induction xs arbitrary: added) simp_all

lemma first_per_category_subset: "set (first_per_category xs added) \<subseteq> set xs"
  by (induction xs arbitrary: added) auto

lemma first_per_category_fresh:
  "ingredient \<in> set (first_per_category xs added) \<Longrightarrow> category ingredient \<notin> added"
  by (induction xs arbitrary: added) (auto split: if_splits)

lemma first_per_category_distinct: "distinct (map category (first_per_category xs added))"
  by (induction xs arbitrary: added) (auto dest: first_per_category_fresh)

lemma first_per_category_length: "length (first_per_category xs added) \<le> length xs"
  by (induction xs arbitrary: added) (auto intro: le_SucI)

lemma chosen_treatments_facts:
  "length (chosen_treatments kg profile t) \<le> 5"
  "distinct (map category (chosen_treatments kg profile t))"
  "set (chosen_treatments kg profile t)
     \<subseteq> {ingredient \<in> set (get_recommended_ingredients kg profile). time_appropriate t ingredient}"
proof -
  let ?xs = "take 5 (filter (time_appropriate t) (get_recommended_ingredients kg profile))"
  have "length (chosen_treatments kg profile t) \<le> length ?xs"
    unfolding chosen_treatments_def by (rule first_per_category_length)
  then show "length (chosen_treatments kg profile t) \<le> 5" by simp
  show "distinct (map category (chosen_treatments kg profile t))"
    unfolding chosen_treatments_def by (rule first_per_category_distinct)
  have "set (chosen_treatments kg profile t) \<subseteq> set ?xs"
    unfolding chosen_treatments_def by (rule first_per_category_subset)
  moreover have "set ?xs \<subseteq> set (filter (time_appropriate t) (get_recommended_ingredients kg profile))"
    by (rule set_take_subset)
  ultimately show "set (chosen_treatments kg profile t)
     \<subseteq> {ingredient \<in> set (get_recommended_ingredients kg profile). time_appropriate t ingredient}"
    by auto
qed

lemma suggest_routine_shape:
  "suggest_routine kg profile t budget
     = cleanser_step # map (treatment_step profile) (chosen_treatments kg profile t)
         @ moisturizer_step # (if t = AM then [sunscreen_step] else [])"
  by (simp add: suggest_routine_def Let_def chosen_treatments_def add_treatments_first_per_category)

lemma step_names:
  "step cleanser_step = ''Cleanser''" "step moisturizer_step = ''Moisturizer''"
  "step sunscreen_step = ''Sunscreen (SPF 30+)''"
  "step (treatment_step profile ingredient) = ''Treatment: '' @ ing_name ingredient"
  by (simp_all add: cleanser_step_def moisturizer_step_def sunscreen_step_def treatment_step_def Let_def)

lemma no_treatment_is_moisturizer:
  "filter (\<lambda>s. step s = ''Moisturizer'') (map (treatment_step profile) ings) = []"
  by (induction ings) (simp_all add: step_names)

section \<open>Evaluating the examples\<close>

lemmas example_defs =
  example_kg_def example_ingredient_def example_interaction_def example_compatibility_def
  example_recommended_def retinol_def vitamin_c_def bakuchiol_def ceramides_def spf_def
  night_cream_def retinol_serum_def c_serum_def day_fluid_def bakuchiol_oil_def aging_profile_def
  bare_morning_def day_fluid_step_def morning_products_def

lemma step_orders_layered:
  "map (get_step_order example_kg) (steps layered_routine) = [4, 5, 8]"
  by (simp add: layered_routine_def get_step_order_def example_defs)

lemma step_orders_shuffled:
  "map (get_step_order example_kg) (steps shuffled_routine) = [8, 5, 4]"
  by (simp add: shuffled_routine_def get_step_order_def example_defs)

lemma later_pairs_3: "later_pairs 3 = [(0, 1), (0, 2), (1, 2)]"
  by (simp add: later_pairs_def upt_conv_Cons)

lemma shuffled_issues:
  "check_ordering example_kg shuffled_routine
     = map (issue_at (steps shuffled_routine)) [(0, 1), (0, 2), (1, 2)]"
proof -
  have len: "length (steps shuffled_routine) = 3"
    by (simp add: shuffled_routine_def)
  have nth: "map (get_step_order example_kg) (steps shuffled_routine) ! 0 = 8"
    "map (get_step_order example_kg) (steps shuffled_routine) ! 1 = 5"
    "map (get_step_order example_kg) (steps shuffled_routine) ! 2 = 4"
    by (simp_all add: step_orders_shuffled)
  have "filter (out_of_order example_kg (steps shuffled_routine)) (later_pairs 3)
          = [(0, 1), (0, 2), (1, 2)]"
    using nth len by (simp add: later_pairs_3 out_of_order_def)
  then show ?thesis using check_ordering_pairs[of example_kg shuffled_routine] len by simp
qed

lemma example_orders:
  "effective_order example_kg night_cream = 8"
  "effective_order example_kg retinol_serum = 5"
  "effective_order example_kg bakuchiol_oil = 5"
  "effective_order example_kg c_serum = 4"
  "effective_order example_kg day_fluid = 10"
  by (simp_all add: effective_order_def get_product_order_def example_defs)

lemma morning_steps:
  "steps (fst (build_routine example_kg morning_products AM None)) =
     [\<lparr> order = 1, product_name = ''C serum'', ingredients = [''vitamin_c''],
        wait_after = 20, step_notes = [] \<rparr>,
      \<lparr> order = 2, product_name = ''Retinol serum'', ingredients = [''retinol'', ''squalane''],
        wait_after = 0, step_notes = ''Retinol should only be used at night'' \<rparr>,
      \<lparr> order = 3, product_name = ''Night cream'', ingredients = [''ceramides''],
        wait_after = 0, step_notes = [] \<rparr>,
      \<lparr> order = 4, product_name = ''Day fluid'', ingredients = [''spf''],
        wait_after = 0, step_notes = [] \<rparr>]"
  by (simp add: build_routine_def Let_def get_product_order_def calculate_wait_time_def example_defs)

lemma cross_waits_c_retinol:
  "cross_waits example_kg [''vitamin_c''] [''retinol'', ''squalane''] = {20}"
  by (auto simp: cross_waits_def example_defs split: if_splits)

lemma recommended_aging:
  "get_recommended_ingredients example_kg aging_profile = [retinol, vitamin_c, bakuchiol, spf]"
  by (simp add: example_defs)

lemma chosen_evening:
  "chosen_treatments example_kg aging_profile PM = [retinol, vitamin_c]"
  by (simp add: chosen_treatments_def recommended_aging time_appropriate_def)
     (simp add: example_defs)

section \<open>Validity of an analysis\<close>

text \<open>
  C1. For every routine and optional profile, the analysis that \<open>analyze_routine\<close>
  returns is valid exactly when its list of conflicts and its list of ordering issues
  are both empty; cautions and missing essentials play no part.
\<close>

theorem analyze_routine_is_valid:
  "is_valid (analyze_routine kg routine profile)
     = (conflicts (analyze_routine kg routine profile) = []
        \<and> ordering_issues (analyze_routine kg routine profile) = [])"
  by (simp add: analyze_routine_def Let_def)

theorem analyze_routine_is_valid_witness:
  "is_valid (analyze_routine example_kg bare_morning None)
   \<and> missing_essentials (analyze_routine example_kg bare_morning None) \<noteq> []
   \<and> \<not> is_valid (analyze_routine example_kg shuffled_routine None)"
proof -
  have c: "conflicts (analyze_routine example_kg bare_morning None) = []"
    "ordering_issues (analyze_routine example_kg bare_morning None) = []"
    by (simp_all add: analyze_routine_def Let_def bare_morning_def get_all_ingredients_def
          check_ordering_def example_defs)
  have v: "is_valid (analyze_routine example_kg bare_morning None)"
    using analyze_routine_is_valid[of example_kg bare_morning None] c by simp
  have m: "missing_essentials (analyze_routine example_kg bare_morning None) \<noteq> []"
    by (simp add: missing_essentials_analyze check_missing_essentials_def bare_morning_def
          get_all_ingredients_def has_category_def)
  have "ordering_issues (analyze_routine example_kg shuffled_routine None) \<noteq> []"
    by (simp add: analyze_routine_def Let_def shuffled_issues)
  then have n: "\<not> is_valid (analyze_routine example_kg shuffled_routine None)"
    using analyze_routine_is_valid[of example_kg shuffled_routine None] by simp
  show ?thesis using v m n by blast
qed

section \<open>The ordering check\<close>

text \<open>
  C2. For every routine, the ordering check emits exactly one issue for each pair of
  steps \<open>(i, j)\<close>, \<open>i\<close> before \<open>j\<close>, whose effective orders satisfy
  \<open>order i > order j\<close>, and none for any other pair: the issues are the messages of the
  out-of-order pairs among all pairs \<open>i < j\<close>, each pair listed once, so their number is
  the number of such pairs. Hence a routine whose steps are sorted by non-decreasing
  effective order has no ordering issue in its analysis.
\<close>

theorem check_ordering_flags_each_decreasing_pair:
  "check_ordering kg r
     = map (issue_at (steps r)) (filter (out_of_order kg (steps r)) (later_pairs (length (steps r))))
   \<and> distinct (later_pairs (length (steps r)))
   \<and> set (later_pairs (length (steps r))) = {(i, j). i < j \<and> j < length (steps r)}
   \<and> length (check_ordering kg r)
       = card {(i, j). i < j \<and> j < length (steps r)
                 \<and> get_step_order kg (steps r ! i) > get_step_order kg (steps r ! j)}
   \<and> (sorted (map (get_step_order kg) (steps r))
        \<longrightarrow> ordering_issues (analyze_routine kg r profile) = [])"
  using check_ordering_pairs[of kg r] distinct_later_pairs[of "length (steps r)"]
    set_later_pairs[of "length (steps r)"] length_check_ordering[of kg r] sorted_no_issue[of kg r]
  by (simp add: analyze_routine_def Let_def)

theorem check_ordering_flags_each_decreasing_pair_witness:
  "sorted (map (get_step_order example_kg) (steps layered_routine))
   \<and> ordering_issues (analyze_routine example_kg layered_routine None) = []
   \<and> check_ordering example_kg shuffled_routine
       = map (issue_at (steps shuffled_routine)) [(0, 1), (0, 2), (1, 2)]
   \<and> length (check_ordering example_kg shuffled_routine) = 3"
proof -
  have h: "sorted (map (get_step_order example_kg) (steps layered_routine))"
    by (simp add: step_orders_layered)
  have none: "ordering_issues (analyze_routine example_kg layered_routine None) = []"
    using check_ordering_flags_each_decreasing_pair[of example_kg layered_routine None] h
    by blast
  have len: "length (steps shuffled_routine) = 3"
    by (simp add: shuffled_routine_def)
  have nth: "map (get_step_order example_kg) (steps shuffled_routine) ! 0 = 8"
    "map (get_step_order example_kg) (steps shuffled_routine) ! 1 = 5"
    "map (get_step_order example_kg) (steps shuffled_routine) ! 2 = 4"
    by (simp_all add: step_orders_shuffled)
  have keep: "filter (out_of_order example_kg (steps shuffled_routine)) (later_pairs 3)
                = [(0, 1), (0, 2), (1, 2)]"
    using nth len by (simp add: later_pairs_3 out_of_order_def)
  have "check_ordering example_kg shuffled_routine
          = map (issue_at (steps shuffled_routine))
              (filter (out_of_order example_kg (steps shuffled_routine)) (later_pairs 3))"
    using check_ordering_flags_each_decreasing_pair[of example_kg shuffled_routine None] len
    by simp
  then have all: "check_ordering example_kg shuffled_routine
          = map (issue_at (steps shuffled_routine)) [(0, 1), (0, 2), (1, 2)]"
    by (simp only: keep)
  then have "length (check_ordering example_kg shuffled_routine) = 3" by simp
  with h none all show ?thesis by blast
qed

section \<open>The effective order of a product\<close>

text \<open>
  C3. The effective application order of a product is the minimum of the application
  orders of those of its ingredient ids that the catalogue resolves; ids that do not
  resolve are ignored, and the order is 5 when the list is empty or no id resolves. A
  step's order is computed the same way, and \<open>build_routine\<close> sorts the products by
  this order.
\<close>

theorem product_order_is_min_of_resolved:
  "get_product_order kg ids
     = (if resolved_orders kg ids = {} then 5 else Min (resolved_orders kg ids))
   \<and> get_step_order kg s = get_product_order kg (ingredients s)
   \<and> map product_of (steps (fst (build_routine kg ps t profile)))
       = sort_key (\<lambda>p. get_product_order kg (product_ingredients p)) ps"
proof -
  have "effective_order kg = (\<lambda>p. get_product_order kg (product_ingredients p))"
    by (rule ext) (simp add: effective_order_def)
  then show ?thesis
    using get_product_order_Min[of kg ids] get_step_order_product[of kg s]
      products_of_build_routine[of kg ps t profile]
    by simp
qed

theorem product_order_is_min_of_resolved_witness:
  "get_product_order example_kg [''squalane'', ''retinol'', ''vitamin_c''] = 4
   \<and> resolved_orders example_kg [''squalane'', ''retinol'', ''vitamin_c''] = {5, 4}
   \<and> Min (resolved_orders example_kg [''squalane'', ''retinol'', ''vitamin_c'']) = 4
   \<and> resolved_orders example_kg [''squalane''] = {}
   \<and> get_product_order example_kg [''squalane''] = 5
   \<and> get_product_order example_kg [] = 5"
proof -
  have r1: "resolved_orders example_kg [''squalane'', ''retinol'', ''vitamin_c''] = {5, 4}"
    by (simp add: set_collect_orders[symmetric] example_defs)
  have r2: "resolved_orders example_kg [''squalane''] = {}"
    by (simp add: set_collect_orders[symmetric] example_defs)
  have r3: "resolved_orders example_kg [] = {}"
    by (simp add: set_collect_orders[symmetric])
  have v1: "get_product_order example_kg [''squalane'', ''retinol'', ''vitamin_c''] = 4"
    using product_order_is_min_of_resolved[of example_kg "[''squalane'', ''retinol'', ''vitamin_c'']"]
    by (simp add: r1)
  have v2: "get_product_order example_kg [''squalane''] = 5"
    using product_order_is_min_of_resolved[of example_kg "[''squalane'']"] by (simp add: r2)
  have v3: "get_product_order example_kg [] = 5"
    using product_order_is_min_of_resolved[of example_kg "[]"] by (simp add: r3)
  show ?thesis using r1 r2 v1 v2 v3 by simp
qed

section \<open>Sorting the products\<close>

text \<open>
  C4. \<open>build_routine\<close> numbers the steps 1, 2, ..., n, lists the products in ascending
  effective order, keeps every product (as a multiset), and keeps the products of equal
  effective order in their input order.
\<close>

theorem build_routine_stable_sort:
  "map order (steps (fst (build_routine kg ps t profile))) = map int [1..<length ps + 1]
   \<and> sorted (map (effective_order kg) (map product_of (steps (fst (build_routine kg ps t profile)))))
   \<and> mset (map product_of (steps (fst (build_routine kg ps t profile)))) = mset ps
   \<and> filter (\<lambda>p. effective_order kg p = k) (map product_of (steps (fst (build_routine kg ps t profile))))
       = filter (\<lambda>p. effective_order kg p = k) ps"
proof -
  have "map order (steps (fst (build_routine kg ps t profile))) = map (\<lambda>k. int k + 1) [0..<length ps]"
    by (simp add: build_routine_steps order_build_steps)
  also have "\<dots> = map int (map Suc [0..<length ps])" by simp
  also have "\<dots> = map int [1..<length ps + 1]" by (simp only: map_Suc_upt) simp
  finally have a: "map order (steps (fst (build_routine kg ps t profile))) = map int [1..<length ps + 1]" .
  show ?thesis using a
    by (simp only: products_of_build_routine sorted_sort_key mset_sort sort_key_stable simp_thms)
qed

theorem build_routine_stable_sort_witness:
  "map order (steps (fst (build_routine example_kg
       [night_cream, retinol_serum, bakuchiol_oil, c_serum] PM None))) = [1, 2, 3, 4]
   \<and> filter (\<lambda>p. effective_order example_kg p = 5)
        (map product_of (steps (fst (build_routine example_kg
           [night_cream, retinol_serum, bakuchiol_oil, c_serum] PM None))))
       = [retinol_serum, bakuchiol_oil]
   \<and> sorted (map (effective_order example_kg)
        (map product_of (steps (fst (build_routine example_kg
           [night_cream, retinol_serum, bakuchiol_oil, c_serum] PM None)))))"
  using build_routine_stable_sort[of example_kg "[night_cream, retinol_serum, bakuchiol_oil, c_serum]" PM None 5]
  by (simp add: example_orders upt_conv_Cons)

section \<open>Waiting between steps\<close>

text \<open>
  C5. In the routine that \<open>build_routine\<close> returns, the wait after a step that has a
  successor is the maximum of the waits carried by the interaction records of the cross
  pairs of the step's ingredient ids and the next step's, and 0 when no such pair carries
  a wait; the wait after the last step is 0.
\<close>

theorem wait_after_is_max_cross_wait:
  assumes "ss = steps (fst (build_routine kg ps t profile))"
  shows "(i < length ss \<longrightarrow>
            wait_after (ss ! i)
              = (if Suc i < length ss
                 then (if cross_waits kg (ingredients (ss ! i)) (ingredients (ss ! Suc i)) = {} then 0
                       else Max (cross_waits kg (ingredients (ss ! i)) (ingredients (ss ! Suc i))))
                 else 0))
         \<and> (ss \<noteq> [] \<longrightarrow> wait_after (last ss) = 0)"
proof -
  define qs where "qs = sort_key (effective_order kg) ps"
  have ss: "ss = build_steps kg t 0 qs" using assms by (simp add: build_routine_steps qs_def)
  have len: "length ss = length qs" by (simp add: ss length_build_steps)
  have a: "wait_after (ss ! i)
              = (if Suc i < length ss
                 then (if cross_waits kg (ingredients (ss ! i)) (ingredients (ss ! Suc i)) = {} then 0
                       else Max (cross_waits kg (ingredients (ss ! i)) (ingredients (ss ! Suc i))))
                 else 0)" if i: "i < length ss"
  proof (cases "Suc i < length ss")
    case True
    have "wait_after (ss ! i)
            = calculate_wait_time kg (product_ingredients (qs ! i)) (product_ingredients (qs ! Suc i))"
      using wait_after_build_steps[of i qs kg t 0] i True len by (simp add: ss)
    moreover have "ingredients (ss ! i) = product_ingredients (qs ! i)"
      using nth_product_of_build_steps[of i qs kg t 0] i len by (simp add: ss)
    moreover have "ingredients (ss ! Suc i) = product_ingredients (qs ! Suc i)"
      using nth_product_of_build_steps[of "Suc i" qs kg t 0] True len by (simp add: ss)
    ultimately show ?thesis using True by (simp add: calculate_wait_time_Max)
  next
    case False
    have "wait_after (ss ! i) = calculate_wait_time kg (product_ingredients (qs ! i)) []"
      using wait_after_build_steps[of i qs kg t 0] i False len by (simp add: ss)
    then show ?thesis using False by (simp add: no_wait_without_next)
  qed
  have b: "wait_after (last ss) = 0" if "ss \<noteq> []"
  proof -
    have "qs \<noteq> []" using that len by auto
    then show ?thesis using wait_after_last_build_steps[of qs kg t 0] by (simp add: ss)
  qed
  show ?thesis using a b by blast
qed

theorem wait_after_is_max_cross_wait_witness:
  "wait_after (steps (fst (build_routine example_kg morning_products AM None)) ! 0) = 20
   \<and> Max (cross_waits example_kg [''vitamin_c''] [''retinol'', ''squalane'']) = 20
   \<and> wait_after (steps (fst (build_routine example_kg morning_products AM None)) ! 1) = 0
   \<and> wait_after (last (steps (fst (build_routine example_kg morning_products AM None)))) = 0"
proof -
  let ?ss = "steps (fst (build_routine example_kg morning_products AM None))"
  have len: "length ?ss = 4" by (simp add: morning_steps)
  have i0: "ingredients (?ss ! 0) = [''vitamin_c'']" "ingredients (?ss ! 1) = [''retinol'', ''squalane'']"
    by (simp_all add: morning_steps)
  have ne: "?ss \<noteq> []" by (simp add: morning_steps)
  have m: "Max (cross_waits example_kg [''vitamin_c''] [''retinol'', ''squalane'']) = 20"
    by (simp add: cross_waits_c_retinol)
  have w0: "wait_after (?ss ! 0) = 20"
    using wait_after_is_max_cross_wait[of ?ss example_kg morning_products AM None 0] len i0
    by (simp add: cross_waits_c_retinol)
  have w1: "wait_after (?ss ! 1) = 0" by (simp add: morning_steps)
  have wl: "wait_after (last ?ss) = 0"
    using wait_after_is_max_cross_wait[of ?ss example_kg morning_products AM None 0] ne
    by blast
  show ?thesis using w0 m w1 wl by blast
qed

section \<open>The missing sunscreen\<close>

text \<open>
  C6, as amended. For every AM routine, the missing essentials of its analysis contain
  the entry \<open>Sunscreen (SPF) - essential for morning routine\<close>, written with a hyphen,
  exactly when no ingredient id of the routine resolves to an ingredient of category
  sunscreen; and a routine into which a step with such an ingredient has been put, at
  any position, does not have the entry.
\<close>

theorem sunscreen_entry_iff_no_sunscreen:
  "(time r = AM \<longrightarrow>
      (sunscreen_entry \<in> set (missing_essentials (analyze_routine kg r profile)))
        = (\<not> resolves_to_category kg ''sunscreen'' (get_all_ingredients r)))
   \<and> (resolves_to_category kg ''sunscreen'' (ingredients s) \<longrightarrow>
        sunscreen_entry \<notin> set (missing_essentials
          (analyze_routine kg (r\<lparr>steps := before @ s # after\<rparr>) profile)))"
  by (simp add: missing_essentials_analyze sunscreen_entry_in_missing get_all_ingredients_def
        resolves_to_category_append)

theorem sunscreen_entry_iff_no_sunscreen_witness:
  "time bare_morning = AM
   \<and> \<not> resolves_to_category example_kg ''sunscreen'' (get_all_ingredients bare_morning)
   \<and> sunscreen_entry \<in> set (missing_essentials (analyze_routine example_kg bare_morning None))
   \<and> resolves_to_category example_kg ''sunscreen'' (ingredients day_fluid_step)
   \<and> sunscreen_entry \<notin> set (missing_essentials
        (analyze_routine example_kg (bare_morning\<lparr>steps := [] @ day_fluid_step # []\<rparr>) None))"
proof -
  have am: "time bare_morning = AM" by (simp add: bare_morning_def)
  have no: "\<not> resolves_to_category example_kg ''sunscreen'' (get_all_ingredients bare_morning)"
    by (simp add: resolves_to_category_def bare_morning_def get_all_ingredients_def)
  have yes: "resolves_to_category example_kg ''sunscreen'' (ingredients day_fluid_step)"
    by (simp add: resolves_to_category_def day_fluid_step_def example_defs)
  note inst = sunscreen_entry_iff_no_sunscreen[of bare_morning example_kg None day_fluid_step "[]" "[]"]
  have a: "sunscreen_entry \<in> set (missing_essentials (analyze_routine example_kg bare_morning None))"
    using inst am no by blast
  have b: "sunscreen_entry \<notin> set (missing_essentials
        (analyze_routine example_kg (bare_morning\<lparr>steps := [] @ day_fluid_step # []\<rparr>) None))"
    using inst yes by blast
  show ?thesis using am no a yes b by blast
qed

text \<open>
  The entry as the specification quotes it, with an em dash, is never produced: an AM routine
  without steps has no sunscreen ingredient, its missing essentials are the two entries
  below, and the quoted entry is not among them.
\<close>

theorem sunscreen_entry_quoted_counterexample:
  "time bare_morning = AM
   \<and> get_all_ingredients bare_morning = []
   \<and> missing_essentials (analyze_routine example_kg bare_morning None)
       = [''Sunscreen (SPF) - essential for morning routine'',
          ''Moisturizer - needed to maintain skin barrier'']
   \<and> sunscreen_entry_quoted \<notin> set (missing_essentials (analyze_routine example_kg bare_morning None))"
  by (simp add: bare_morning_def missing_essentials_analyze check_missing_essentials_def
        get_all_ingredients_def has_category_def sunscreen_entry_quoted_def)

section \<open>Flagging ingredients of the wrong time of day\<close>

text \<open>
  C7. In the routine that \<open>build_routine\<close> returns, a step with an ingredient id that
  resolves to an ingredient restricted to the opposite time of day (PM only in an AM
  build, AM only in a PM build) has a non-empty note, the note of such an ingredient of
  the step; a step without one has an empty note. The note does not move the step: the
  products of the steps are the input products sorted by effective order, and the
  positions are 1, 2, ..., n.
\<close>

theorem steps_flagged_not_moved:
  assumes "ss = steps (fst (build_routine kg ps t profile))"
  shows "(\<forall>s \<in> set ss.
            (flagged kg t (ingredients s) \<longrightarrow>
               step_notes s \<noteq> []
               \<and> (\<exists>ing ingredient. ing \<in> set (ingredients s)
                     \<and> get_ingredient kg ing = Some ingredient
                     \<and> restricted_opposite t ingredient
                     \<and> step_notes s = opposite_note t ingredient))
            \<and> (\<not> flagged kg t (ingredients s) \<longrightarrow> step_notes s = []))
         \<and> map product_of ss = sort_key (effective_order kg) ps
         \<and> map order ss = map int [1..<length ps + 1]"
proof -
  have ss: "ss = build_steps kg t 0 (sort_key (effective_order kg) ps)"
    using assms by (simp add: build_routine_steps)
  have ann: "(flagged kg t (ingredients s) \<longrightarrow>
               step_notes s \<noteq> []
               \<and> (\<exists>ing ingredient. ing \<in> set (ingredients s)
                     \<and> get_ingredient kg ing = Some ingredient
                     \<and> restricted_opposite t ingredient
                     \<and> step_notes s = opposite_note t ingredient))
            \<and> (\<not> flagged kg t (ingredients s) \<longrightarrow> step_notes s = [])" if "s \<in> set ss" for s
  proof (cases "flagged kg t (ingredients s)")
    case True
    then have nok: "\<not> fst (check_time_appropriateness kg (ingredients s) t)"
      by (simp add: check_time_ok)
    then have n: "step_notes s = snd (check_time_appropriateness kg (ingredients s) t)"
      using notes_build_steps[of s kg t 0] that ss by simp
    from check_time_note[OF nok] obtain ing ingredient where w:
      "ing \<in> set (ingredients s)" "get_ingredient kg ing = Some ingredient"
      "restricted_opposite t ingredient"
      "snd (check_time_appropriateness kg (ingredients s) t) = opposite_note t ingredient"
      by blast
    then have "step_notes s = opposite_note t ingredient" using n by simp
    then show ?thesis using True w opposite_note_nonempty[of t ingredient] by auto
  next
    case False
    then have "fst (check_time_appropriateness kg (ingredients s) t)"
      by (simp add: check_time_ok)
    then have "step_notes s = []" using notes_build_steps[of s kg t 0] that ss by simp
    then show ?thesis using False by simp
  qed
  have pos: "map product_of ss = sort_key (effective_order kg) ps"
    using assms by (simp add: products_of_build_routine)
  have "map order ss = map (\<lambda>k. int k + 1) [0..<length ps]"
    by (simp add: ss order_build_steps)
  also have "\<dots> = map int (map Suc [0..<length ps])" by simp
  also have "\<dots> = map int [1..<length ps + 1]" by (simp only: map_Suc_upt) simp
  finally have ord: "map order ss = map int [1..<length ps + 1]" .
  show ?thesis using ann pos ord by blast
qed

theorem steps_flagged_not_moved_witness:
  "flagged example_kg AM (ingredients (steps (fst (build_routine example_kg morning_products AM None)) ! 1))
   \<and> step_notes (steps (fst (build_routine example_kg morning_products AM None)) ! 1)
       = ''Retinol should only be used at night''
   \<and> map product_of (steps (fst (build_routine example_kg morning_products AM None)))
       = [c_serum, retinol_serum, night_cream, day_fluid]
   \<and> map order (steps (fst (build_routine example_kg morning_products AM None))) = [1, 2, 3, 4]"
proof -
  let ?ss = "steps (fst (build_routine example_kg morning_products AM None))"
  note inst = steps_flagged_not_moved[of ?ss example_kg morning_products AM None, OF refl]
  have mem: "?ss ! 1 \<in> set ?ss" by (simp add: morning_steps)
  have ing1: "ingredients (?ss ! 1) = [''retinol'', ''squalane'']"
    by (simp add: morning_steps)
  have fl: "flagged example_kg AM (ingredients (?ss ! 1))"
    by (simp only: ing1) (simp add: flagged_Cons restricted_opposite_def example_defs)
  have n: "step_notes (?ss ! 1) = ''Retinol should only be used at night''"
    by (simp add: morning_steps)
  have "step_notes (?ss ! 1) \<noteq> []" using inst mem fl by blast
  have p: "map product_of ?ss = sort_key (effective_order example_kg) morning_products"
    using inst by blast
  have sk: "sort_key (effective_order example_kg) morning_products
              = [c_serum, retinol_serum, night_cream, day_fluid]"
    by (simp add: morning_products_def example_orders)
  have p': "map product_of ?ss = [c_serum, retinol_serum, night_cream, day_fluid]"
    using p sk by (rule trans)
  have o: "map order ?ss = map int [1..<length morning_products + 1]" using inst by blast
  have "map int [1..<length morning_products + 1] = [1, 2, 3, 4]"
    by (simp add: morning_products_def upt_conv_Cons)
  with o have o': "map order ?ss = [1, 2, 3, 4]" by (rule trans)
  show ?thesis using fl n p' o' by blast
qed

section \<open>The layout of a suggested routine\<close>

text \<open>
  C8, as amended. For every profile, time and budget, \<open>suggest_routine\<close> returns the
  cleanser step, then the treatment entries, then the moisturizer step, then the
  sunscreen step exactly when the time is AM. So the first entry is a cleanser step,
  exactly one entry is a moisturizer step, and the list ends with a sunscreen step
  exactly when the time is AM; the moisturizer step is the last entry when the time is
  PM and the last but one when it is AM. The treatment entries are at most 5, are made
  from recommended ingredients that suit the time of day, and no two of them are made
  from ingredients of the same category.
\<close>

theorem suggest_routine_layout:
  "suggest_routine kg profile t budget
     = cleanser_step # map (treatment_step profile) (chosen_treatments kg profile t)
         @ moisturizer_step # (if t = AM then [sunscreen_step] else [])
   \<and> step (hd (suggest_routine kg profile t budget)) = ''Cleanser''
   \<and> length (filter (\<lambda>s. step s = ''Moisturizer'') (suggest_routine kg profile t budget)) = 1
   \<and> length (chosen_treatments kg profile t) \<le> 5
   \<and> distinct (map category (chosen_treatments kg profile t))
   \<and> set (chosen_treatments kg profile t)
        \<subseteq> {ingredient \<in> set (get_recommended_ingredients kg profile). time_appropriate t ingredient}
   \<and> (step (last (suggest_routine kg profile t budget)) = ''Sunscreen (SPF 30+)'') = (t = AM)
   \<and> (t = PM \<longrightarrow> last (suggest_routine kg profile t budget) = moisturizer_step)
   \<and> (t = AM \<longrightarrow> last (butlast (suggest_routine kg profile t budget)) = moisturizer_step)"
proof -
  note shape = suggest_routine_shape[of kg profile t budget]
  have one: "length (filter (\<lambda>s. step s = ''Moisturizer'') (suggest_routine kg profile t budget)) = 1"
    by (simp add: shape no_treatment_is_moisturizer step_names)
  have hd: "step (hd (suggest_routine kg profile t budget)) = ''Cleanser''"
    by (simp add: shape step_names)
  have lst: "(step (last (suggest_routine kg profile t budget)) = ''Sunscreen (SPF 30+)'') = (t = AM)"
    by (simp add: shape step_names)
  have pm: "t = PM \<longrightarrow> last (suggest_routine kg profile t budget) = moisturizer_step"
    by (simp add: suggest_routine_shape)
  have am: "t = AM \<longrightarrow> last (butlast (suggest_routine kg profile t budget)) = moisturizer_step"
    by (simp add: suggest_routine_shape butlast_append)
  show ?thesis using shape hd one chosen_treatments_facts[of kg profile t] lst pm am
    by (intro conjI)
qed

theorem suggest_routine_layout_witness:
  "suggest_routine example_kg aging_profile PM ''moderate''
     = [cleanser_step, treatment_step aging_profile retinol,
        treatment_step aging_profile vitamin_c, moisturizer_step]
   \<and> last (suggest_routine example_kg aging_profile PM ''moderate'') = moisturizer_step
   \<and> last (suggest_routine example_kg aging_profile AM ''moderate'') = sunscreen_step
   \<and> last (butlast (suggest_routine example_kg aging_profile AM ''moderate'')) = moisturizer_step"
proof -
  note pm = suggest_routine_layout[of example_kg aging_profile PM "''moderate''"]
  note am = suggest_routine_layout[of example_kg aging_profile AM "''moderate''"]
  have a: "suggest_routine example_kg aging_profile PM ''moderate''
     = [cleanser_step, treatment_step aging_profile retinol,
        treatment_step aging_profile vitamin_c, moisturizer_step]"
    using pm by (simp add: chosen_evening)
  have b: "last (suggest_routine example_kg aging_profile PM ''moderate'') = moisturizer_step"
    using pm by blast
  have "suggest_routine example_kg aging_profile AM ''moderate''
     = cleanser_step # map (treatment_step aging_profile) (chosen_treatments example_kg aging_profile AM)
         @ [moisturizer_step, sunscreen_step]"
    using am by simp
  then have c: "last (suggest_routine example_kg aging_profile AM ''moderate'') = sunscreen_step"
    by simp
  have d: "last (butlast (suggest_routine example_kg aging_profile AM ''moderate'')) = moisturizer_step"
    using am by blast
  show ?thesis using a b c d by blast
qed

text \<open>
  The specification places the moisturizer step before the end of the list. For the evening
  routine of the example profile the moisturizer step is the last entry, and it does not
  occur among the entries before the last.
\<close>

theorem moisturizer_before_end_counterexample:
  "suggest_routine example_kg aging_profile PM ''moderate''
     = [cleanser_step, treatment_step aging_profile retinol,
        treatment_step aging_profile vitamin_c, moisturizer_step]
   \<and> last (suggest_routine example_kg aging_profile PM ''moderate'') = moisturizer_step
   \<and> moisturizer_step \<notin> set (butlast (suggest_routine example_kg aging_profile PM ''moderate''))"
proof -
  have a: "suggest_routine example_kg aging_profile PM ''moderate''
     = [cleanser_step, treatment_step aging_profile retinol,
        treatment_step aging_profile vitamin_c, moisturizer_step]"
    by (simp add: suggest_routine_shape chosen_evening)
  have "step moisturizer_step \<noteq> step cleanser_step"
    "step moisturizer_step \<noteq> step (treatment_step aging_profile retinol)"
    "step moisturizer_step \<noteq> step (treatment_step aging_profile vitamin_c)"
    by (simp_all add: step_names)
  then have "moisturizer_step \<noteq> cleanser_step"
    "moisturizer_step \<noteq> treatment_step aging_profile retinol"
    "moisturizer_step \<noteq> treatment_step aging_profile vitamin_c"
    by auto
  then show ?thesis by (simp add: a)
qed

section \<open>Comparing two products\<close>

text \<open>
  C9. \<open>compare_products\<close> runs the compatibility check on the concatenation of the
  two ingredient lists, returns the check's compatibility flag as \<open>can_use_together\<close>
  and its conflicts, cautions and synergies unchanged, and returns as recommendation one
  of four fixed messages: the do-not-combine message if there is a conflict, else the
  caution message if there is a caution, else the great-combination message if there is
  a synergy, else the no-known-interactions message.
\<close>

theorem compare_products_advice:
  "can_use_together (compare_products kg product_a product_b)
     = is_compatible (check_compatibility kg (product_a @ product_b))
   \<and> found_conflicts (compare_products kg product_a product_b)
       = compat_conflicts (check_compatibility kg (product_a @ product_b))
   \<and> found_cautions (compare_products kg product_a product_b)
       = compat_cautions (check_compatibility kg (product_a @ product_b))
   \<and> found_synergies (compare_products kg product_a product_b)
       = compat_synergies (check_compatibility kg (product_a @ product_b))
   \<and> advice (compare_products kg product_a product_b)
       = (if compat_conflicts (check_compatibility kg (product_a @ product_b)) \<noteq> []
          then ''These products should NOT be used together in the same routine.''
          else if compat_cautions (check_compatibility kg (product_a @ product_b)) \<noteq> []
          then ''These can be used together with caution. Consider using on alternate days if irritation occurs.''
          else if compat_synergies (check_compatibility kg (product_a @ product_b)) \<noteq> []
          then ''Great combination! These products complement each other well.''
          else ''No known interactions. Should be safe to use together.'')"
  by (simp add: compare_products_def Let_def generate_combination_advice_def)

theorem compare_products_advice_witness:
  "can_use_together (compare_products example_kg [''retinol''] [''vitamin_c''])
   \<and> advice (compare_products example_kg [''retinol''] [''vitamin_c''])
       = ''These can be used together with caution. Consider using on alternate days if irritation occurs.''
   \<and> advice (compare_products example_kg [''retinol''] [''ceramides''])
       = ''No known interactions. Should be safe to use together.''"
proof -
  have c1: "check_compatibility example_kg ([''retinol''] @ [''vitamin_c''])
      = \<lparr> is_compatible = True, compat_conflicts = [],
             compat_cautions = [\<lparr> ingredient_a = ''retinol'', ingredient_b = ''vitamin_c'',
                                  recommendation = None \<rparr>],
             compat_synergies = [],
             compat_wait_times = [\<lparr> ingredient_a = ''retinol'', ingredient_b = ''vitamin_c'',
                                    recommendation = None \<rparr>] \<rparr>"
    by (simp add: example_defs)
  have c2: "check_compatibility example_kg ([''retinol''] @ [''ceramides''])
      = \<lparr> is_compatible = True, compat_conflicts = [], compat_cautions = [],
             compat_synergies = [], compat_wait_times = [] \<rparr>"
    by (simp add: example_defs)
  show ?thesis
    using compare_products_advice[of example_kg "[''retinol'']" "[''vitamin_c'']"]
      compare_products_advice[of example_kg "[''retinol'']" "[''ceramides'']"]
    by (simp only: c1 c2) simp
qed

section \<open>The budget\<close>

text \<open>
  C10. For every profile and time, \<open>suggest_routine\<close> returns the same list for any two
  values of the budget argument.
\<close>

theorem suggest_routine_ignores_budget:
  "suggest_routine kg profile t budget = suggest_routine kg profile t budget'"
  by (simp add: suggest_routine_def)

theorem suggest_routine_ignores_budget_witness:
  "suggest_routine example_kg aging_profile AM ''minimal''
     = suggest_routine example_kg aging_profile AM ''comprehensive''
   \<and> suggest_routine example_kg aging_profile PM ''moderate''
     = suggest_routine example_kg aging_profile PM ''minimal''"
  using suggest_routine_ignores_budget[of example_kg aging_profile AM "''minimal''" "''comprehensive''"]
    suggest_routine_ignores_budget[of example_kg aging_profile PM "''moderate''" "''minimal''"]
  by (rule conjI)

end
